theory Spec2Isabelle
  imports Complex_Main "HOL-Library.Word"
begin

section \<open>JavaScript numbers\<close>

text \<open>
  Every numeric value of the program is a JavaScript \<^verbatim>\<open>number\<close>, an IEEE-754 double.
  The model keeps the three special values apart from the finite ones. A finite value is a
  real number. An arithmetic result that is an integer is rounded the way a double rounds
  it: to 53 significant bits, ties to even, and to an infinity from \<open>2 ^ 1024\<close> on. Integers
  of magnitude below \<open>2 ^ 53\<close> are therefore exact, as they are in the program. The rounding
  of a result with a fractional part is not modelled: such a result is kept as the exact
  real. Signed zeros are not told apart: no operation of the program divides by a zero.
\<close>

datatype number = Num real | PosInf | NegInf | NaN

function bitlength :: "nat \<Rightarrow> nat" where
  "bitlength n = (if n = 0 then 0 else Suc (bitlength (n div 2)))"
  by pat_completeness auto
termination
  by (relation "measure id") auto

declare bitlength.simps [simp del]

definition round_half_even :: "int \<Rightarrow> int \<Rightarrow> int" where
  "round_half_even a d =
     (let q = a div d; r = a mod d
      in if 2 * r < d then q else if d < 2 * r then q + 1 else if even q then q else q + 1)"

text \<open>\<open>round_sig p n\<close> is the integer \<open>n\<close> rounded to \<open>p\<close> significant bits.\<close>

definition round_sig :: "nat \<Rightarrow> int \<Rightarrow> int" where
  "round_sig p n =
     (let a = \<bar>n\<bar>; l = bitlength (nat a)
      in if l \<le> p then n
         else sgn n * (round_half_even a (2 ^ (l - p)) * 2 ^ (l - p)))"

definition is_int :: "real \<Rightarrow> bool" where
  "is_int x = (of_int \<lfloor>x\<rfloor> = x)"

definition rd :: "real \<Rightarrow> number" where
  "rd x =
     (let y = (if is_int x then of_int (round_sig 53 \<lfloor>x\<rfloor>) else x)
      in if 2 ^ 1024 \<le> y then PosInf else if y \<le> - (2 ^ 1024) then NegInf else Num y)"

fun jneg :: "number \<Rightarrow> number" where
  "jneg (Num a) = Num (- a)"
| "jneg PosInf = NegInf"
| "jneg NegInf = PosInf"
| "jneg NaN = NaN"

fun jadd :: "number \<Rightarrow> number \<Rightarrow> number" where
  "jadd NaN _ = NaN"
| "jadd _ NaN = NaN"
| "jadd (Num a) (Num b) = rd (a + b)"
| "jadd PosInf NegInf = NaN"
| "jadd NegInf PosInf = NaN"
| "jadd PosInf _ = PosInf"
| "jadd NegInf _ = NegInf"
| "jadd (Num a) b = b"

definition jsub :: "number \<Rightarrow> number \<Rightarrow> number" where
  "jsub a b = jadd a (jneg b)"

text \<open>The sign of an infinite product: an infinity times zero is not a number.\<close>

definition inf_times :: "bool \<Rightarrow> real \<Rightarrow> number" where
  "inf_times pos b =
     (if b = 0 then NaN else if (0 < b) = pos then PosInf else NegInf)"

fun jmul :: "number \<Rightarrow> number \<Rightarrow> number" where
  "jmul NaN _ = NaN"
| "jmul _ NaN = NaN"
| "jmul (Num a) (Num b) = rd (a * b)"
| "jmul PosInf (Num b) = inf_times True b"
| "jmul NegInf (Num b) = inf_times False b"
| "jmul (Num a) PosInf = inf_times True a"
| "jmul (Num a) NegInf = inf_times False a"
| "jmul PosInf PosInf = PosInf"
| "jmul NegInf NegInf = PosInf"
| "jmul PosInf NegInf = NegInf"
| "jmul NegInf PosInf = NegInf"

fun jdiv :: "number \<Rightarrow> number \<Rightarrow> number" where
  "jdiv NaN _ = NaN"
| "jdiv _ NaN = NaN"
| "jdiv (Num a) (Num b) =
     (if b = 0 then (if a = 0 then NaN else if 0 < a then PosInf else NegInf)
      else rd (a / b))"
| "jdiv (Num a) _ = Num 0"
| "jdiv PosInf (Num b) = (if 0 \<le> b then PosInf else NegInf)"
| "jdiv NegInf (Num b) = (if 0 \<le> b then NegInf else PosInf)"
| "jdiv _ _ = NaN"

definition jtrunc :: "real \<Rightarrow> int" where
  "jtrunc x = (if 0 \<le> x then \<lfloor>x\<rfloor> else \<lceil>x\<rceil>)"

text \<open>
  The remainder operator \<^verbatim>\<open>%\<close>: the result has the sign of the dividend and is exact.
\<close>

fun jmod :: "number \<Rightarrow> number \<Rightarrow> number" where
  "jmod NaN _ = NaN"
| "jmod _ NaN = NaN"
| "jmod (Num a) (Num b) = (if b = 0 then NaN else Num (a - b * of_int (jtrunc (a / b))))"
| "jmod (Num a) _ = Num a"
| "jmod _ _ = NaN"

fun jlt :: "number \<Rightarrow> number \<Rightarrow> bool" where
  "jlt NaN _ = False"
| "jlt _ NaN = False"
| "jlt (Num a) (Num b) = (a < b)"
| "jlt (Num a) PosInf = True"
| "jlt (Num a) NegInf = False"
| "jlt PosInf _ = False"
| "jlt NegInf NegInf = False"
| "jlt NegInf _ = True"

definition jgt :: "number \<Rightarrow> number \<Rightarrow> bool" where
  "jgt a b = jlt b a"

text \<open>\<^verbatim>\<open>Math.min\<close> and \<^verbatim>\<open>Math.max\<close> return NaN as soon as one argument is NaN.\<close>

definition jmin :: "number \<Rightarrow> number \<Rightarrow> number" where
  "jmin a b = (if a = NaN \<or> b = NaN then NaN else if jlt b a then b else a)"

definition jmax :: "number \<Rightarrow> number \<Rightarrow> number" where
  "jmax a b = (if a = NaN \<or> b = NaN then NaN else if jlt a b then b else a)"

text \<open>\<^verbatim>\<open>Math.round\<close> rounds to the nearest integer, a half towards plus infinity.\<close>

fun jround :: "number \<Rightarrow> number" where
  "jround (Num a) = Num (of_int \<lfloor>a + 1 / 2\<rfloor>)"
| "jround v = v"

fun jsqrt :: "number \<Rightarrow> number" where
  "jsqrt (Num a) = (if a < 0 then NaN else Num (sqrt a))"
| "jsqrt PosInf = PosInf"
| "jsqrt _ = NaN"

fun jlog :: "number \<Rightarrow> number" where
  "jlog (Num a) = (if a < 0 then NaN else if a = 0 then NegInf else Num (ln a))"
| "jlog PosInf = PosInf"
| "jlog _ = NaN"

fun jcos :: "number \<Rightarrow> number" where
  "jcos (Num a) = Num (cos a)"
| "jcos _ = NaN"

text \<open>
  \<^verbatim>\<open>x ** 1.5\<close>, the only power the program takes: a negative base with a fractional
  exponent is not a number.
\<close>

fun pow_1_5 :: "number \<Rightarrow> number" where
  "pow_1_5 (Num a) = (if a < 0 then NaN else rd (a powr (3 / 2)))"
| "pow_1_5 PosInf = PosInf"
| "pow_1_5 NegInf = PosInf"
| "pow_1_5 NaN = NaN"


text \<open>A number in a condition is false when it is zero or NaN.\<close>

fun truthy :: "number \<Rightarrow> bool" where
  "truthy (Num a) = (a \<noteq> 0)"
| "truthy NaN = False"
| "truthy _ = True"

section \<open>SeededRandom\<close>

record SeededRandom =
  seed :: number

text \<open>
  The constructor: \<^verbatim>\<open>this.seed = seed ?? Date.now()\<close>. The value that \<^verbatim>\<open>Date.now()\<close>
  would return is the parameter \<open>now\<close>.
\<close>

definition SeededRandom_new :: "number \<Rightarrow> number option \<Rightarrow> SeededRandom" where
  "SeededRandom_new now s = \<lparr>seed = (case s of None \<Rightarrow> now | Some v \<Rightarrow> v)\<rparr>"

text \<open>
  \<open>next\<close> and \<open>gaussian\<close> return their result together with the generator they leave.
  \<^verbatim>\<open>Math.PI\<close> is the number \<open>\<pi>\<close>.
\<close>

definition "next" :: "SeededRandom \<Rightarrow> number \<times> SeededRandom" where
  "next rng =
     (let s = jmod (jadd (jmul (SeededRandom.seed rng) (Num 1664525)) (Num 1013904223))
                (Num 4294967296)
      in (jdiv s (Num 4294967296), rng\<lparr>SeededRandom.seed := s\<rparr>))"

definition gaussian :: "number \<Rightarrow> number \<Rightarrow> SeededRandom \<Rightarrow> number \<times> SeededRandom" where
  "gaussian mean stdDev rng =
     (let (u1, rng1) = next rng;
          (u2, rng2) = next rng1;
          z0 = jmul (jsqrt (jmul (Num (- 2)) (jlog u1)))
                 (jcos (jmul (jmul (Num 2) (Num pi)) u2))
      in (jadd mean (jmul z0 stdDev), rng2))"


text \<open>
  The recurrence as the specification words it, on unbounded integers:
  \<open>(state \<times> 1664525 + 1013904223) mod 2^32\<close>.
\<close>

definition lcg_spec :: "int \<Rightarrow> int" where
  "lcg_spec s = (s * 1664525 + 1013904223) mod 4294967296"


section \<open>Configuration\<close>

record NoiseConfig =
  intensity :: number
  variance :: number
  luminanceDependent :: bool
  microContrast :: number
  seed :: "number option"
  smoothing :: "number option"





section \<open>Noise fields\<close>

text \<open>
  Storing a number into a \<^verbatim>\<open>Float32Array\<close> rounds it to single precision: an integer to
  24 significant bits, to an infinity from \<open>2 ^ 128\<close> on. A noise field is the list of the
  stored values in index order; viewing the array as a byte buffer and back does not
  change them.
\<close>

fun fround :: "number \<Rightarrow> number" where
  "fround (Num a) =
     (let y = (if is_int a then of_int (round_sig 24 \<lfloor>a\<rfloor>) else a)
      in if 2 ^ 128 \<le> y then PosInf else if y \<le> - (2 ^ 128) then NegInf else Num y)"
| "fround v = v"

text \<open>The loop of \<open>generateSensorNoiseMap\<close>, over the pixels still to fill.\<close>

fun sensor_loop :: "nat \<Rightarrow> NoiseConfig \<Rightarrow> SeededRandom \<Rightarrow> number list" where
  "sensor_loop 0 config rng = []"
| "sensor_loop (Suc n) config rng =
     (let (baseNoise, rng1) = gaussian (Num 0) (intensity config) rng;
          (varianceMultiplier, rng2) =
            (if jgt (variance config) (Num 0)
             then (let (v, rng') = gaussian (Num 0) (variance config) rng1
                   in (jadd (Num 1) v, rng'))
             else (Num 1, rng1))
      in fround (jmul baseNoise varianceMultiplier) # sensor_loop n config rng2)"

definition generateSensorNoiseMap :: "number \<Rightarrow> nat \<Rightarrow> nat \<Rightarrow> NoiseConfig \<Rightarrow> number list" where
  "generateSensorNoiseMap now width height config =
     (let rng = SeededRandom_new now (NoiseConfig.seed config);
          pixelCount = width * height
      in sensor_loop pixelCount config rng)"

text \<open>
  The generator of \<open>generateChannelNoise\<close>:
  \<^verbatim>\<open>new SeededRandom(config.seed ? config.seed + 1 : undefined)\<close>.
\<close>

definition channelRng :: "number \<Rightarrow> NoiseConfig \<Rightarrow> SeededRandom" where
  "channelRng now config =
     SeededRandom_new now
       (case NoiseConfig.seed config of
          None \<Rightarrow> None
        | Some s \<Rightarrow> if truthy s then Some (jadd s (Num 1)) else None)"

fun channel_loop :: "nat \<Rightarrow> number \<Rightarrow> SeededRandom \<Rightarrow> number list \<times> SeededRandom" where
  "channel_loop 0 channelIntensity rng = ([], rng)"
| "channel_loop (Suc n) channelIntensity rng =
     (let (v, rng1) = gaussian (Num 0) channelIntensity rng;
          (vs, rng2) = channel_loop n channelIntensity rng1
      in (fround v # vs, rng2))"

text \<open>The closure shares the one generator, which is passed through.\<close>

definition createChannelBuffer ::
  "nat \<Rightarrow> NoiseConfig \<Rightarrow> number \<Rightarrow> SeededRandom \<Rightarrow> number list \<times> SeededRandom" where
  "createChannelBuffer pixelCount config multiplier rng =
     (let channelIntensity = jmul (jmul (intensity config) multiplier) (Num (3 / 10))
      in channel_loop pixelCount channelIntensity rng)"

definition generateChannelNoise ::
  "number \<Rightarrow> nat \<Rightarrow> nat \<Rightarrow> NoiseConfig \<Rightarrow> number list \<times> number list \<times> number list" where
  "generateChannelNoise now width height config =
     (let rng = channelRng now config;
          pixelCount = width * height;
          (r, rng1) = createChannelBuffer pixelCount config (Num 1) rng;
          (g, rng2) = createChannelBuffer pixelCount config (Num (85 / 100)) rng1;
          (b, rng3) = createChannelBuffer pixelCount config (Num (125 / 100)) rng2
      in (r, g, b))"

definition getLuminanceNoiseScale :: "number \<Rightarrow> number" where
  "getLuminanceNoiseScale luminance =
     (let norm = jdiv luminance (Num 255);
          scale = jadd (Num 1) (pow_1_5 (jsub (Num 1) norm))
      in jmax (Num (1 / 2)) (jmin (Num 2) scale))"

section \<open>Compositing\<close>

definition clamp :: "number \<Rightarrow> number \<Rightarrow> number \<Rightarrow> number" where
  "clamp v lo hi = jmax lo (jmin hi (jround v))"

text \<open>
  A \<^verbatim>\<open>Buffer\<close> is an array of bytes. Buffers live in a store, a list indexed by
  address, so that two references to one buffer can be told from two buffers with equal
  contents. \<^verbatim>\<open>Buffer.from(buffer)\<close> allocates a new buffer and copies the bytes.
\<close>

type_synonym buffer = "8 word list"
type_synonym heap = "buffer list"

definition Buffer_from :: "heap \<Rightarrow> nat \<Rightarrow> nat \<times> heap" where
  "Buffer_from h src = (length h, h @ [h ! src])"

text \<open>
  Reading past the end of a buffer yields \<^verbatim>\<open>undefined\<close>, which every arithmetic
  operation turns into NaN; writing past the end is ignored. A number stored into a byte
  is truncated and reduced modulo 256, and NaN and the infinities are stored as 0.
\<close>

fun toUint8 :: "number \<Rightarrow> 8 word" where
  "toUint8 (Num a) = word_of_int (jtrunc a)"
| "toUint8 _ = 0"

definition read_byte :: "heap \<Rightarrow> nat \<Rightarrow> nat \<Rightarrow> number" where
  "read_byte h a i =
     (if i < length (h ! a) then Num (of_nat (unat (h ! a ! i))) else NaN)"

definition write_byte :: "heap \<Rightarrow> nat \<Rightarrow> nat \<Rightarrow> number \<Rightarrow> heap" where
  "write_byte h a i v =
     (if i < length (h ! a) then h[a := (h ! a)[i := toUint8 v]] else h)"

text \<open>The body of the pixel loop of \<open>applyNoise\<close>, for the pixel \<open>i\<close>.\<close>

definition process_pixel ::
  "NoiseConfig \<Rightarrow> number list \<Rightarrow> number list \<Rightarrow> number list \<Rightarrow> number list
     \<Rightarrow> nat \<Rightarrow> nat \<Rightarrow> heap \<Rightarrow> heap" where
  "process_pixel config noiseFloat rNoiseFloat gNoiseFloat bNoiseFloat output i h =
     (let pixelIndex = i * 3;
          r = read_byte h output pixelIndex;
          g = read_byte h output (pixelIndex + 1);
          b = read_byte h output (pixelIndex + 2);
          luminance = jadd (jadd (jmul (Num (2126 / 10000)) r) (jmul (Num (7152 / 10000)) g))
                        (jmul (Num (722 / 10000)) b);
          baseNoise = noiseFloat ! i;
          baseNoise = (if luminanceDependent config
                       then jmul baseNoise (getLuminanceNoiseScale luminance)
                       else baseNoise);
          rNoise = jmul (jadd baseNoise (rNoiseFloat ! i)) (Num 255);
          gNoise = jmul (jadd baseNoise (gNoiseFloat ! i)) (Num 255);
          bNoise = jmul (jadd baseNoise (bNoiseFloat ! i)) (Num 255);
          h = write_byte h output pixelIndex (clamp (jadd r rNoise) (Num 0) (Num 255));
          h = write_byte h output (pixelIndex + 1) (clamp (jadd g gNoise) (Num 0) (Num 255));
          h = write_byte h output (pixelIndex + 2) (clamp (jadd b bNoise) (Num 0) (Num 255))
      in h)"

text \<open>
  \<open>applyNoise\<close> takes the store and the address of the pixel buffer and returns the
  address of its result with the new store. The two generators are constructed one after
  the other, so each has its own reading of the clock.
\<close>

definition applyNoise ::
  "number \<Rightarrow> number \<Rightarrow> heap \<Rightarrow> nat \<Rightarrow> nat \<Rightarrow> nat \<Rightarrow> NoiseConfig \<Rightarrow> nat \<times> heap" where
  "applyNoise nowBase nowChannel h pixelData width height config =
     (let (output, h1) = Buffer_from h pixelData;
          noiseFloat = generateSensorNoiseMap nowBase width height config;
          (rNoiseFloat, gNoiseFloat, bNoiseFloat) =
            generateChannelNoise nowChannel width height config;
          pixelCount = width * height
      in (output,
          fold (process_pixel config noiseFloat rNoiseFloat gNoiseFloat bNoiseFloat output)
            [0..<pixelCount] h1))"

section \<open>Predicates of the specification\<close>





section \<open>Rounding to significant bits\<close>

lemma bitlength_le_iff: "bitlength n \<le> p \<longleftrightarrow> n < 2 ^ p"
proof (induction n arbitrary: p rule: bitlength.induct)
  case (1 n)
  show ?case
  proof (cases "n = 0")
    case True
    then show ?thesis by (simp add: bitlength.simps)
  next
    case False
    show ?thesis
    proof (cases p)
      case 0
      with False show ?thesis by (simp add: bitlength.simps)
    next
      case (Suc q)
      have "bitlength n \<le> Suc q \<longleftrightarrow> bitlength (n div 2) \<le> q"
        using False by (subst bitlength.simps) simp
      also have "\<dots> \<longleftrightarrow> n div 2 < 2 ^ q"
        using 1 False by blast
      also have "\<dots> \<longleftrightarrow> n < 2 ^ Suc q"
        by (simp add: div_less_iff_less_mult mult.commute)
      finally show ?thesis using Suc by simp
    qed
  qed
qed


lemma round_sig_small: "\<bar>n\<bar> < 2 ^ p \<Longrightarrow> round_sig p n = n"
proof -
  assume "\<bar>n\<bar> < 2 ^ p"
  then have "nat \<bar>n\<bar> < 2 ^ p"
    by (simp add: nat_less_iff)
  then have "bitlength (nat \<bar>n\<bar>) \<le> p"
    by (simp only: bitlength_le_iff)
  then show ?thesis
    by (simp add: round_sig_def Let_def)
qed



section \<open>Arithmetic on numbers\<close>


lemma is_int_cases: "is_int x \<Longrightarrow> (\<And>k. x = of_int k \<Longrightarrow> P) \<Longrightarrow> P"
  by (metis is_int_def)

lemma rd_exact: "\<bar>x\<bar> < 2 ^ 53 \<Longrightarrow> rd x = Num x"
proof -
  assume b: "\<bar>x\<bar> < 2 ^ 53"
  have big: "(2::real) ^ 53 \<le> 2 ^ 1024"
    by (rule power_increasing) simp_all
  have y: "(if is_int x then of_int (round_sig 53 \<lfloor>x\<rfloor>) else x) = x"
  proof (cases "is_int x")
    case True
    then obtain k where k: "x = of_int k" by (rule is_int_cases)
    have "real_of_int \<bar>k\<bar> < 2 ^ 53" using b k by simp
    then have "\<bar>k\<bar> < 2 ^ 53" by (simp only: of_int_less_numeral_power_cancel_iff)
    then show ?thesis using k by (simp add: round_sig_small)
  next
    case False
    then show ?thesis by simp
  qed
  show ?thesis
    unfolding rd_def y Let_def using b big by auto
qed








lemma jadd_exact: "\<bar>a + b\<bar> < 2 ^ 53 \<Longrightarrow> jadd (Num a) (Num b) = Num (a + b)"
  by (simp add: rd_exact)

section \<open>The generator\<close>

lemma lcg_spec_range: "0 \<le> lcg_spec s \<and> lcg_spec s < 4294967296"
  by (simp add: lcg_spec_def)

lemma jmod_of_int:
  assumes "0 \<le> n"
  shows "jmod (Num (of_int n)) (Num 4294967296) = Num (of_int (n mod 4294967296))"
proof -
  have "real_of_int n / 4294967296 = real_of_int n / real_of_int 4294967296" by simp
  then have "\<lfloor>real_of_int n / 4294967296\<rfloor> = n div 4294967296"
    by (simp only: floor_divide_of_int_eq)
  moreover have "0 \<le> real_of_int n / 4294967296" using assms by simp
  ultimately have t: "jtrunc (real_of_int n / 4294967296) = n div 4294967296"
    by (simp add: jtrunc_def)
  have "n - 4294967296 * (n div 4294967296) = n mod 4294967296"
    by (simp add: minus_mult_div_eq_mod)
  then have "real_of_int n - 4294967296 * real_of_int (n div 4294967296)
      = real_of_int (n mod 4294967296)"
    by (metis of_int_diff of_int_mult of_int_numeral)
  then show ?thesis by (simp add: t)
qed

lemma next_exact:
  assumes "0 \<le> s" "s * 1664525 + 1013904223 < 2 ^ 53"
  shows "next \<lparr>SeededRandom.seed = Num (of_int s)\<rparr> =
           (Num (of_int (lcg_spec s) / 4294967296),
            \<lparr>SeededRandom.seed = Num (of_int (lcg_spec s))\<rparr>)"
proof -
  have m0: "0 \<le> s * 1664525" using assms by simp
  then have "\<bar>s * 1664525\<bar> < 2 ^ 53" using assms by linarith
  then have "\<bar>real_of_int (s * 1664525)\<bar> < 2 ^ 53"
    by (metis of_int_abs of_int_less_numeral_power_cancel_iff)
  then have "rd (real_of_int (s * 1664525)) = Num (real_of_int (s * 1664525))"
    by (rule rd_exact)
  then have mul: "jmul (Num (of_int s)) (Num 1664525) = Num (of_int (s * 1664525))"
    by simp
  have "\<bar>s * 1664525 + 1013904223\<bar> < 2 ^ 53" using assms m0 by linarith
  then have "\<bar>real_of_int (s * 1664525 + 1013904223)\<bar> < 2 ^ 53"
    by (metis of_int_abs of_int_less_numeral_power_cancel_iff)
  then have "rd (real_of_int (s * 1664525 + 1013904223))
      = Num (real_of_int (s * 1664525 + 1013904223))"
    by (rule rd_exact)
  then have add: "jadd (Num (of_int (s * 1664525))) (Num 1013904223)
      = Num (of_int (s * 1664525 + 1013904223))"
    by simp
  have md: "jmod (Num (of_int (s * 1664525 + 1013904223))) (Num 4294967296)
      = Num (of_int (lcg_spec s))"
    unfolding lcg_spec_def by (rule jmod_of_int) (use m0 in simp)
  have "\<bar>real_of_int (lcg_spec s) / 4294967296\<bar> < 2 ^ 53"
    using lcg_spec_range [of s] by simp
  then have dv: "jdiv (Num (of_int (lcg_spec s))) (Num 4294967296)
      = Num (of_int (lcg_spec s) / 4294967296)"
    by (simp add: rd_exact)
  have step: "next \<lparr>SeededRandom.seed = Num (of_int s)\<rparr> =
           (Num (of_int (lcg_spec s) / 4294967296),
            \<lparr>SeededRandom.seed = Num (of_int (lcg_spec s))\<rparr>)"
    by (simp only: next_def Let_def SeededRandom.select_convs SeededRandom.update_convs
        mul add md dv)
  show ?thesis by (rule step)
qed








lemma gaussian_unfold:
  "gaussian mean stdDev rng =
     (jadd mean
        (jmul (jmul (jsqrt (jmul (Num (- 2)) (jlog (fst (next rng)))))
                 (jcos (jmul (jmul (Num 2) (Num pi)) (fst (next (snd (next rng)))))))
           stdDev),
      snd (next (snd (next rng))))"
  by (simp add: gaussian_def Let_def split_beta)

text \<open>
  Claim C8. Every call of \<open>gaussian mean stdDev\<close> returns
  \<open>mean + sqrt (-2 \<times> ln u1) \<times> cos (2 \<times> \<pi> \<times> u2) \<times> stdDev\<close>, where \<open>u1\<close> is the result of a
  first call of \<open>next\<close> and \<open>u2\<close> the result of a second call on the generator the first
  one left; the generator it leaves is the one after exactly these two calls. Only the
  cosine appears. From an integer state \<open>s\<close> below \<open>2 ^ 32\<close> the two draws are the next two
  states of the recurrence divided by \<open>2 ^ 32\<close>, and the state left is the recurrence
  applied twice to \<open>s\<close>.
\<close>

theorem gaussian_two_draws:
  "gaussian mean stdDev rng =
     (jadd mean
        (jmul (jmul (jsqrt (jmul (Num (- 2)) (jlog (fst (next rng)))))
                 (jcos (jmul (jmul (Num 2) (Num pi)) (fst (next (snd (next rng)))))))
           stdDev),
      snd (next (snd (next rng))))
   \<and> (0 \<le> s \<and> s < 4294967296 \<longrightarrow>
        fst (next \<lparr>SeededRandom.seed = Num (of_int s)\<rparr>)
          = Num (of_int (lcg_spec s) / 4294967296)
      \<and> fst (next (snd (next \<lparr>SeededRandom.seed = Num (of_int s)\<rparr>)))
          = Num (of_int (lcg_spec (lcg_spec s)) / 4294967296)
      \<and> snd (gaussian mean stdDev \<lparr>SeededRandom.seed = Num (of_int s)\<rparr>)
          = \<lparr>SeededRandom.seed = Num (of_int (lcg_spec (lcg_spec s)))\<rparr>)"
proof (intro conjI impI)
  show "gaussian mean stdDev rng =
     (jadd mean
        (jmul (jmul (jsqrt (jmul (Num (- 2)) (jlog (fst (next rng)))))
                 (jcos (jmul (jmul (Num 2) (Num pi)) (fst (next (snd (next rng)))))))
           stdDev),
      snd (next (snd (next rng))))"
    by (rule gaussian_unfold)
next
  assume s: "0 \<le> s \<and> s < 4294967296"
  have n1: "next \<lparr>SeededRandom.seed = Num (of_int s)\<rparr> =
      (Num (of_int (lcg_spec s) / 4294967296),
       \<lparr>SeededRandom.seed = Num (of_int (lcg_spec s))\<rparr>)"
    by (rule next_exact) (use s in simp_all)
  have n2: "next \<lparr>SeededRandom.seed = Num (of_int (lcg_spec s))\<rparr> =
      (Num (of_int (lcg_spec (lcg_spec s)) / 4294967296),
       \<lparr>SeededRandom.seed = Num (of_int (lcg_spec (lcg_spec s)))\<rparr>)"
    by (rule next_exact) (use lcg_spec_range [of s] in simp_all)
  show "fst (next \<lparr>SeededRandom.seed = Num (of_int s)\<rparr>)
      = Num (of_int (lcg_spec s) / 4294967296)"
    by (simp only: n1 fst_conv)
  show "fst (next (snd (next \<lparr>SeededRandom.seed = Num (of_int s)\<rparr>)))
      = Num (of_int (lcg_spec (lcg_spec s)) / 4294967296)"
    by (simp only: n1 n2 fst_conv snd_conv)
  show "snd (gaussian mean stdDev \<lparr>SeededRandom.seed = Num (of_int s)\<rparr>)
      = \<lparr>SeededRandom.seed = Num (of_int (lcg_spec (lcg_spec s)))\<rparr>"
    by (simp only: gaussian_unfold n1 n2 fst_conv snd_conv)
qed

text \<open>
  From state 1 the two draws are \<open>1015568748 / 2 ^ 32\<close> and \<open>1586005467 / 2 ^ 32\<close>, and the
  state left is 1586005467.
\<close>

theorem gaussian_two_draws_witness:
  "gaussian (Num 0) (Num 1) \<lparr>SeededRandom.seed = Num 1\<rparr> =
     (jadd (Num 0)
        (jmul (jmul (jsqrt (jmul (Num (- 2)) (jlog (Num (1015568748 / 4294967296)))))
                 (jcos (jmul (jmul (Num 2) (Num pi)) (Num (1586005467 / 4294967296)))))
           (Num 1)),
      \<lparr>SeededRandom.seed = Num 1586005467\<rparr>)"
proof -
  note t = gaussian_two_draws [of "Num 0" "Num 1" "\<lparr>SeededRandom.seed = Num 1\<rparr>" 1]
  have l: "lcg_spec 1 = 1015568748" "lcg_spec 1015568748 = 1586005467"
    by (simp_all add: lcg_spec_def)
  from t have g: "gaussian (Num 0) (Num 1) \<lparr>SeededRandom.seed = Num 1\<rparr> =
     (jadd (Num 0)
        (jmul (jmul (jsqrt (jmul (Num (- 2))
                 (jlog (fst (next \<lparr>SeededRandom.seed = Num 1\<rparr>)))))
                 (jcos (jmul (jmul (Num 2) (Num pi))
                   (fst (next (snd (next \<lparr>SeededRandom.seed = Num 1\<rparr>)))))))
           (Num 1)),
      snd (next (snd (next \<lparr>SeededRandom.seed = Num 1\<rparr>))))"
    by (rule conjunct1)
  have h: "(0::int) \<le> 1 \<and> (1::int) < 4294967296" by simp
  from t have "fst (next \<lparr>SeededRandom.seed = Num (of_int 1)\<rparr>)
        = Num (of_int (lcg_spec 1) / 4294967296)
      \<and> fst (next (snd (next \<lparr>SeededRandom.seed = Num (of_int 1)\<rparr>)))
          = Num (of_int (lcg_spec (lcg_spec 1)) / 4294967296)
      \<and> snd (gaussian (Num 0) (Num 1) \<lparr>SeededRandom.seed = Num (of_int 1)\<rparr>)
          = \<lparr>SeededRandom.seed = Num (of_int (lcg_spec (lcg_spec 1)))\<rparr>"
    using h by blast
  then have "fst (next \<lparr>SeededRandom.seed = Num 1\<rparr>) = Num (1015568748 / 4294967296)
      \<and> fst (next (snd (next \<lparr>SeededRandom.seed = Num 1\<rparr>)))
          = Num (1586005467 / 4294967296)
      \<and> snd (gaussian (Num 0) (Num 1) \<lparr>SeededRandom.seed = Num 1\<rparr>)
          = \<lparr>SeededRandom.seed = Num 1586005467\<rparr>"
    by (simp only: l of_int_1 of_int_numeral)
  then have d: "fst (next \<lparr>SeededRandom.seed = Num 1\<rparr>) = Num (1015568748 / 4294967296)"
      "fst (next (snd (next \<lparr>SeededRandom.seed = Num 1\<rparr>)))
          = Num (1586005467 / 4294967296)"
      "snd (gaussian (Num 0) (Num 1) \<lparr>SeededRandom.seed = Num 1\<rparr>)
          = \<lparr>SeededRandom.seed = Num 1586005467\<rparr>"
    by blast+
  have "snd (next (snd (next \<lparr>SeededRandom.seed = Num 1\<rparr>)))
      = \<lparr>SeededRandom.seed = Num 1586005467\<rparr>"
    using d(3) by (simp only: g snd_conv)
  then show ?thesis
    by (simp only: g d(1,2))
qed

section \<open>Noise fields and the clamp\<close>

lemma sensor_loop_cong:
  "intensity c2 = intensity c1 \<Longrightarrow> variance c2 = variance c1
   \<Longrightarrow> sensor_loop n c2 rng = sensor_loop n c1 rng"
  by (induction n arbitrary: rng) (simp_all add: Let_def split_beta)

lemma length_sensor_loop: "length (sensor_loop n c rng) = n"
  by (induction n arbitrary: rng) (simp_all add: Let_def split_beta)

text \<open>
  Claim C2. When the seed is present, the base noise field is a function of the seed, the
  intensity, the variance, the width and the height alone: two configurations that agree
  on these three fields give the same field, element by element, whatever the clock reads
  at either call and whatever their other fields are. The field has \<open>width \<times> height\<close>
  elements.
\<close>

theorem generateSensorNoiseMap_deterministic:
  assumes "NoiseConfig.seed c1 = Some s" "NoiseConfig.seed c2 = Some s"
    and "intensity c2 = intensity c1" "variance c2 = variance c1"
  shows "generateSensorNoiseMap now1 width height c1 = generateSensorNoiseMap now2 width height c2
         \<and> length (generateSensorNoiseMap now1 width height c1) = width * height"
  using assms
  by (simp add: generateSensorNoiseMap_def SeededRandom_new_def Let_def length_sensor_loop
      sensor_loop_cong [of c2 c1])

text \<open>
  Two runs with seed 42 on a \<open>3 \<times> 2\<close> image, at different clock readings and with
  different values of the fields that play no part.
\<close>

theorem generateSensorNoiseMap_deterministic_witness:
  "NoiseConfig.seed \<lparr>intensity = Num (1 / 100), variance = Num (1 / 4), luminanceDependent = True,
       microContrast = Num (1 / 5), seed = Some (Num 42), smoothing = None\<rparr> = Some (Num 42)
   \<and> NoiseConfig.seed \<lparr>intensity = Num (1 / 100), variance = Num (1 / 4), luminanceDependent = False,
       microContrast = Num 0, seed = Some (Num 42), smoothing = Some (Num 1)\<rparr> = Some (Num 42)
   \<and> generateSensorNoiseMap (Num 1000) 3 2
        \<lparr>intensity = Num (1 / 100), variance = Num (1 / 4), luminanceDependent = True,
         microContrast = Num (1 / 5), seed = Some (Num 42), smoothing = None\<rparr>
     = generateSensorNoiseMap (Num 2000) 3 2
        \<lparr>intensity = Num (1 / 100), variance = Num (1 / 4), luminanceDependent = False,
         microContrast = Num 0, seed = Some (Num 42), smoothing = Some (Num 1)\<rparr>
   \<and> length (generateSensorNoiseMap (Num 1000) 3 2
        \<lparr>intensity = Num (1 / 100), variance = Num (1 / 4), luminanceDependent = True,
         microContrast = Num (1 / 5), seed = Some (Num 42), smoothing = None\<rparr>) = 6"
  using generateSensorNoiseMap_deterministic
    [of "\<lparr>intensity = Num (1 / 100), variance = Num (1 / 4), luminanceDependent = True,
         microContrast = Num (1 / 5), seed = Some (Num 42), smoothing = None\<rparr>"
        "Num 42"
        "\<lparr>intensity = Num (1 / 100), variance = Num (1 / 4), luminanceDependent = False,
         microContrast = Num 0, seed = Some (Num 42), smoothing = Some (Num 1)\<rparr>"
        "Num 1000" 3 2 "Num 2000"]
  by auto

text \<open>
  Claim C3 fails at seed 0, by a slip of the code: the condition \<^verbatim>\<open>config.seed ? ...\<close>
  takes the seed 0 for an absent seed. The generator of the channel noise is then seeded
  from the clock, not with \<open>0 + 1 = 1\<close>, and the channel noise for seed 0 is the channel
  noise of a configuration without seed.
\<close>

theorem generateChannelNoise_seed_zero:
  "channelRng now (config\<lparr>NoiseConfig.seed := Some (Num 0)\<rparr>) = \<lparr>SeededRandom.seed = now\<rparr>
   \<and> channelRng now (config\<lparr>NoiseConfig.seed := Some (Num 0)\<rparr>) = SeededRandom_new now None
   \<and> SeededRandom_new now (Some (jadd (Num 0) (Num 1))) = \<lparr>SeededRandom.seed = Num 1\<rparr>
   \<and> generateChannelNoise now width height (config\<lparr>NoiseConfig.seed := Some (Num 0)\<rparr>)
       = generateChannelNoise now width height (config\<lparr>NoiseConfig.seed := None\<rparr>)"
  by (simp add: channelRng_def SeededRandom_new_def generateChannelNoise_def
      createChannelBuffer_def Let_def rd_def is_int_def round_sig_def bitlength.simps)

lemma unat_toUint8_small: "k \<le> 255 \<Longrightarrow> unat (toUint8 (Num (real k))) = k"
proof -
  assume k: "k \<le> 255"
  have "jtrunc (real k) = int k" by (simp add: jtrunc_def)
  then have "toUint8 (Num (real k)) = word_of_int (int k)" by simp
  also have "\<dots> = (of_nat k :: 8 word)" by simp
  finally have "unat (toUint8 (Num (real k))) = unat (of_nat k :: 8 word)" by simp
  also have "\<dots> = k" using k by (simp add: unat_of_nat)
  finally show ?thesis .
qed

lemma clamp_finite:
  "clamp (Num a) (Num 0) (Num 255) = Num (real (nat (max 0 (min 255 \<lfloor>a + 1 / 2\<rfloor>))))"
proof -
  define j where "j = \<lfloor>a + 1 / 2\<rfloor>"
  have r: "jround (Num a) = Num (of_int j)" by (simp add: j_def)
  consider "j < 0" | "0 \<le> j" "j \<le> 255" | "255 < j" by linarith
  then have "jmax (Num 0) (jmin (Num 255) (Num (of_int j))) = Num (real (nat (max 0 (min 255 j))))"
  proof cases
    case 1
    then show ?thesis by (simp add: jmin_def jmax_def)
  next
    case 2
    then show ?thesis by (simp add: jmin_def jmax_def)
  next
    case 3
    then show ?thesis by (simp add: jmin_def jmax_def)
  qed
  then show ?thesis unfolding clamp_def r j_def .
qed

lemma clamp_byte_cases:
  "(\<exists>k::nat. k \<le> 255 \<and> clamp v (Num 0) (Num 255) = Num (real k)
        \<and> unat (toUint8 (clamp v (Num 0) (Num 255))) = k)
   \<or> (v = NaN \<and> clamp v (Num 0) (Num 255) = NaN \<and> toUint8 (clamp v (Num 0) (Num 255)) = 0)"
proof -
  have fin: "clamp v (Num 0) (Num 255) = Num (real k) \<Longrightarrow> k \<le> 255 \<Longrightarrow> ?thesis" for k
    using unat_toUint8_small [of k] by auto
  show ?thesis
  proof (cases v)
    case (Num a)
    show ?thesis
    proof (rule fin)
      show "clamp v (Num 0) (Num 255) = Num (real (nat (max 0 (min 255 \<lfloor>a + 1 / 2\<rfloor>))))"
        unfolding Num by (rule clamp_finite)
      show "nat (max 0 (min 255 \<lfloor>a + 1 / 2\<rfloor>)) \<le> 255" by simp
    qed
  next
    case PosInf
    show ?thesis
      by (rule fin [of 255]) (simp_all add: PosInf clamp_def jmin_def jmax_def)
  next
    case NegInf
    show ?thesis
      by (rule fin [of 0]) (simp_all add: NegInf clamp_def jmin_def jmax_def)
  next
    case NaN
    then show ?thesis by (simp add: clamp_def jmin_def jmax_def)
  qed
qed

lemma byte_le_255: "unat (b :: 8 word) \<le> 255"
proof -
  have "unat b < 2 ^ LENGTH(8)" by (rule unsigned_less)
  then show ?thesis by simp
qed

text \<open>
  Claim C5. Whatever number \<open>v\<close> the sum of a channel value and its noise contribution is,
  finite, infinite or NaN, the byte that the compositing pass stores for it,
  \<open>toUint8 (clamp v 0 255)\<close>, lies in \<open>[0, 255]\<close>. When \<open>v\<close> is not NaN the clamp yields an
  integer \<open>k\<close> with \<open>0 \<le> k \<le> 255\<close> and the byte is \<open>k\<close>; when \<open>v\<close> is NaN the clamp yields NaN
  and the byte is 0. Every byte of the buffer that \<open>applyNoise\<close> returns lies in
  \<open>[0, 255]\<close>.
\<close>

theorem output_byte_in_range:
  "((\<exists>k::nat. k \<le> 255 \<and> clamp v (Num 0) (Num 255) = Num (real k)
        \<and> unat (toUint8 (clamp v (Num 0) (Num 255))) = k)
    \<or> (v = NaN \<and> clamp v (Num 0) (Num 255) = NaN \<and> toUint8 (clamp v (Num 0) (Num 255)) = 0))
   \<and> list_all (\<lambda>b. unat b \<le> 255)
        (snd (applyNoise nowBase nowChannel h pixelData width height config)
           ! fst (applyNoise nowBase nowChannel h pixelData width height config))"
  using clamp_byte_cases [of v] by (simp add: list_all_iff byte_le_255)

section \<open>The luminance scale\<close>




section \<open>Validation and the output buffer\<close>






lemma length_write_byte [simp]: "length (write_byte h a i v) = length h"
  by (simp add: write_byte_def)

lemma write_byte_other [simp]: "a' \<noteq> a \<Longrightarrow> write_byte h a i v ! a' = h ! a'"
  by (simp add: write_byte_def)

lemma write_byte_length_same [simp]:
  "a < length h \<Longrightarrow> length (write_byte h a i v ! a) = length (h ! a)"
  by (simp add: write_byte_def)

lemma process_pixel_frame:
  "length (process_pixel c nf rn gn bn out i h) = length h
   \<and> (\<forall>a. a \<noteq> out \<longrightarrow> process_pixel c nf rn gn bn out i h ! a = h ! a)
   \<and> (out < length h \<longrightarrow> length (process_pixel c nf rn gn bn out i h ! out) = length (h ! out))"
  by (simp add: process_pixel_def Let_def)

lemma fold_process_pixel_frame:
  "length (fold (process_pixel c nf rn gn bn out) is h) = length h
   \<and> (\<forall>a. a \<noteq> out \<longrightarrow> fold (process_pixel c nf rn gn bn out) is h ! a = h ! a)
   \<and> (out < length h \<longrightarrow>
        length (fold (process_pixel c nf rn gn bn out) is h ! out) = length (h ! out))"
proof (induction "is" arbitrary: h)
  case Nil
  then show ?case by simp
next
  case (Cons i "is")
  show ?case
    using Cons.IH [of "process_pixel c nf rn gn bn out i h"]
      process_pixel_frame [of c nf rn gn bn out i h]
    by simp
qed

text \<open>
  Claim C10. \<open>applyNoise\<close> returns a buffer at a new address, different from the address
  of the pixel buffer it was given; every buffer that existed before, the pixel buffer
  among them, holds the same bytes afterwards; and the returned buffer is as long as the
  pixel buffer.
\<close>

theorem applyNoise_fresh_output:
  assumes "pixelData < length h"
  shows "fst (applyNoise nowBase nowChannel h pixelData width height config) \<noteq> pixelData
    \<and> fst (applyNoise nowBase nowChannel h pixelData width height config) = length h
    \<and> length (snd (applyNoise nowBase nowChannel h pixelData width height config)) = Suc (length h)
    \<and> (\<forall>a < length h.
          snd (applyNoise nowBase nowChannel h pixelData width height config) ! a = h ! a)
    \<and> length (snd (applyNoise nowBase nowChannel h pixelData width height config)
               ! fst (applyNoise nowBase nowChannel h pixelData width height config))
        = length (h ! pixelData)"
proof -
  obtain rn gn bn where ch: "generateChannelNoise nowChannel width height config = (rn, gn, bn)"
    by (cases "generateChannelNoise nowChannel width height config") auto
  define nf where "nf = generateSensorNoiseMap nowBase width height config"
  define h1 where "h1 = h @ [h ! pixelData]"
  define h2 where "h2 = fold (process_pixel config nf rn gn bn (length h)) [0..<width * height] h1"
  have res: "applyNoise nowBase nowChannel h pixelData width height config = (length h, h2)"
    by (simp add: applyNoise_def Buffer_from_def ch Let_def nf_def h1_def h2_def)
  have fr: "length h2 = length h1"
    "\<forall>a. a \<noteq> length h \<longrightarrow> h2 ! a = h1 ! a"
    "length h < length h1 \<longrightarrow> length (h2 ! length h) = length (h1 ! length h)"
    unfolding h2_def using fold_process_pixel_frame [of config nf rn gn bn "length h" _ h1]
    by blast+
  have "\<forall>a < length h. h2 ! a = h ! a"
    using fr(2) by (simp add: h1_def nth_append)
  moreover have "length (h2 ! length h) = length (h ! pixelData)"
    using fr(3) by (simp add: h1_def)
  moreover have "length h2 = Suc (length h)"
    using fr(1) by (simp add: h1_def)
  ultimately show ?thesis using assms by (simp add: res)
qed

text \<open>
  A store holding one buffer of one pixel.
\<close>

theorem applyNoise_fresh_output_witness:
  "(0::nat) < length [[250, 250, 250 :: 8 word]]
   \<and> fst (applyNoise (Num 5) (Num 6) [[250, 250, 250]] 0 1 1
        \<lparr>intensity = Num (1 / 100), variance = Num (1 / 4), luminanceDependent = True,
         microContrast = Num 0, seed = Some (Num 42), smoothing = None\<rparr>) \<noteq> 0
   \<and> snd (applyNoise (Num 5) (Num 6) [[250, 250, 250]] 0 1 1
        \<lparr>intensity = Num (1 / 100), variance = Num (1 / 4), luminanceDependent = True,
         microContrast = Num 0, seed = Some (Num 42), smoothing = None\<rparr>) ! 0 = [250, 250, 250]
   \<and> length (snd (applyNoise (Num 5) (Num 6) [[250, 250, 250]] 0 1 1
        \<lparr>intensity = Num (1 / 100), variance = Num (1 / 4), luminanceDependent = True,
         microContrast = Num 0, seed = Some (Num 42), smoothing = None\<rparr>)
       ! fst (applyNoise (Num 5) (Num 6) [[250, 250, 250]] 0 1 1
        \<lparr>intensity = Num (1 / 100), variance = Num (1 / 4), luminanceDependent = True,
         microContrast = Num 0, seed = Some (Num 42), smoothing = None\<rparr>)) = 3"
  using applyNoise_fresh_output [of 0 "[[250, 250, 250]]" "Num 5" "Num 6" 1 1
      "\<lparr>intensity = Num (1 / 100), variance = Num (1 / 4), luminanceDependent = True,
         microContrast = Num 0, seed = Some (Num 42), smoothing = None\<rparr>"]
  by (auto simp: numeral_3_eq_3)

section \<open>Zero intensity\<close>


lemma jmul_NaN_right [simp]: "jmul x NaN = NaN"
  by (cases x) simp_all

lemma rd_zero [simp]: "rd 0 = Num 0"
  by (simp add: rd_exact)


















end
